theory Spec2Isabelle
  imports Main "HOL-Library.Word" "HOL-Library.Sublist"
begin

section \<open>JavaScript values used by src/index.ts\<close>

type_synonym byte = "8 word"

text \<open>
  What an HTTP response body or a thrown value can hold at run time. The TypeScript
  interfaces promise strings, but nothing checks them, so response fields stay values.
  An object is the list of its own properties, each key occurring once; parsed from JSON,
  no property is a function. Floating point is outside this model, so a number
  \<open>JNum nonzero text\<close> is kept as what this file can observe of it: whether it is true in
  a condition (neither 0, -0 nor NaN) and the text that \<open>String\<close> gives for it.
\<close>

datatype js_value =
    JUndefined
  | JNull
  | JBool bool
  | JNum bool string
  | JStr string
  | JArr "js_value list"
  | JObj "(string \<times> js_value) list"

text \<open>The response of a failed request, as far as the catch blocks read it.\<close>

datatype axios_response =
  Response (status: nat) (statusText: string) (data: js_value)

text \<open>
  A thrown value: \<open>JsError name message\<close> is an ordinary error object (\<open>new Error(m)\<close> is
  \<open>JsError ''Error'' m\<close>), \<open>AxiosError message response\<close> is one that
  \<open>axios.isAxiosError\<close> recognises; its response is absent when no reply arrived.
\<close>

datatype js_error =
    JsError string string
  | AxiosError string "axios_response option"

fun isAxiosError :: "js_error \<Rightarrow> bool" where
  "isAxiosError (AxiosError _ _) = True"
| "isAxiosError (JsError _ _) = False"

fun truthy :: "js_value \<Rightarrow> bool" where
  "truthy JUndefined = False"
| "truthy JNull = False"
| "truthy (JBool b) = b"
| "truthy (JNum nonzero _) = nonzero"
| "truthy (JStr s) = (s \<noteq> [])"
| "truthy (JArr _) = True"
| "truthy (JObj _) = True"

text \<open>\<open>a || b\<close>\<close>

definition js_or :: "js_value \<Rightarrow> js_value \<Rightarrow> js_value" where
  "js_or a b = (if truthy a then a else b)"

text \<open>
  \<open>v.k\<close> for the property names this file reads (none of them is a built-in property of
  a string, number, boolean or array): a TypeError on undefined and null (the message is
  V8's), the own property of an object, undefined otherwise.
\<close>

fun get_prop :: "js_value \<Rightarrow> string \<Rightarrow> js_error + js_value" where
  "get_prop JUndefined k =
     Inl (JsError ''TypeError'' (''Cannot read properties of undefined (reading '' @ [CHR 0x27] @ k @ [CHR 0x27] @ '')''))"
| "get_prop JNull k =
     Inl (JsError ''TypeError'' (''Cannot read properties of null (reading '' @ [CHR 0x27] @ k @ [CHR 0x27] @ '')''))"
| "get_prop (JObj kvs) k = Inr (case map_of kvs k of None \<Rightarrow> JUndefined | Some v \<Rightarrow> v)"
| "get_prop _ k = Inr JUndefined"

text \<open>\<open>v?.k\<close>\<close>

fun opt_prop :: "js_value \<Rightarrow> string \<Rightarrow> js_value" where
  "opt_prop (JObj kvs) k = (case map_of kvs k of None \<Rightarrow> JUndefined | Some v \<Rightarrow> v)"
| "opt_prop _ k = JUndefined"

fun join_comma :: "string list \<Rightarrow> string" where
  "join_comma [] = []"
| "join_comma [s] = s"
| "join_comma (s # t # ss) = s @ '','' @ join_comma (t # ss)"

text \<open>Conversions done from left to right: all the results, or the first error thrown.\<close>

fun first_error :: "('e + 'a) list \<Rightarrow> 'e + 'a list" where
  "first_error [] = Inr []"
| "first_error (Inl err # rs) = Inl err"
| "first_error (Inr x # rs) = (case first_error rs of Inl err \<Rightarrow> Inl err | Inr xs \<Rightarrow> Inr (x # xs))"

text \<open>
  The conversion a template literal applies to \<open>${v}\<close>. An array joins the conversions
  of its elements with commas, null and undefined elements giving the empty text. An object
  answers with \<open>Object.prototype.toString\<close> unless it has a property \<open>toString\<close> of its
  own: that property is no function, \<open>valueOf\<close> (its own, no function, or the inherited
  one, which returns the object) gives no primitive either, and the conversion throws a
  TypeError (the message is V8's).
\<close>

fun js_toString :: "js_value \<Rightarrow> js_error + string" where
  "js_toString JUndefined = Inr ''undefined''"
| "js_toString JNull = Inr ''null''"
| "js_toString (JBool b) = Inr (if b then ''true'' else ''false'')"
| "js_toString (JNum _ text_of) = Inr text_of"
| "js_toString (JStr s) = Inr s"
| "js_toString (JArr vs) =
     (case first_error
             (map (\<lambda>v. if v = JNull \<or> v = JUndefined then Inr [] else js_toString v) vs) of
        Inl err \<Rightarrow> Inl err
      | Inr texts \<Rightarrow> Inr (join_comma texts))"
| "js_toString (JObj kvs) =
     (if map_of kvs ''toString'' = None then Inr ''[object Object]''
      else Inl (JsError ''TypeError'' ''Cannot convert object to primitive value''))"

text \<open>\<open>s.split(sep)\<close> for a one-character separator, and \<open>xs.pop()\<close>.\<close>

fun js_split :: "char \<Rightarrow> string \<Rightarrow> string list" where
  "js_split sep [] = [[]]"
| "js_split sep (c # cs) =
     (if c = sep then [] # js_split sep cs
      else (case js_split sep cs of [] \<Rightarrow> [[c]] | w # ws \<Rightarrow> (c # w) # ws))"

definition js_pop :: "'a list \<Rightarrow> 'a option" where
  "js_pop xs = (if xs = [] then None else Some (last xs))"

text \<open>\<open>x || d\<close> where \<open>x\<close> is a string or undefined.\<close>

definition or_default :: "string option \<Rightarrow> string \<Rightarrow> string" where
  "or_default x d = (case x of None \<Rightarrow> d | Some s \<Rightarrow> if s = [] then d else s)"

section \<open>Options, results and the multipart form\<close>

datatype image_input = StringInput string | BufferInput "byte list"

record EraseWatermarkOptions =
  originalPreviewImage :: "image_input option"
  maskBase :: "string option"
  maskBrush :: "string option"
  sessionId :: "string option"
  removeText :: "bool option"

text \<open>
  Field names are global in a theory, so the fields that several interfaces share carry
  a prefix in the later records: \<open>res_sessionId\<close> and \<open>res_maskBase\<close> are
  \<open>EraseWatermarkResponse.sessionId\<close> and \<open>.maskBase\<close>, \<open>save_sessionId\<close> and
  \<open>save_removeText\<close> are \<open>SaveLargeImageOptions.sessionId\<close> and \<open>.removeText\<close>.
\<close>

record EraseWatermarkResponse =
  res_sessionId :: js_value
  imageBase64 :: js_value
  res_maskBase :: js_value
  watermarkMask :: js_value

record SaveLargeImageOptions =
  originalLargeImage :: "image_input option"
  previewImageToSave :: "string option"
  previewMaskToSave :: "string option"
  save_sessionId :: "string option"
  save_removeText :: "bool option"

record SaveLargeImageResponse =
  largeImageToSave :: js_value

text \<open>
  The value of an optional option when JavaScript takes it for true in a condition:
  undefined and the empty string are false, every Buffer (an object) is true.
\<close>

fun truthy_string :: "string option \<Rightarrow> string option" where
  "truthy_string None = None"
| "truthy_string (Some s) = (if s = [] then None else Some s)"

fun truthy_image :: "image_input option \<Rightarrow> image_input option" where
  "truthy_image None = None"
| "truthy_image (Some (StringInput s)) = (if s = [] then None else Some (StringInput s))"
| "truthy_image (Some (BufferInput b)) = Some (BufferInput b)"

text \<open>
  What \<open>formData.append\<close> was given: a text field, or a file part with its content and
  filename. \<open>ReadStream p\<close> is the stream that \<open>fs.createReadStream(p)\<close> returns: the
  file is opened and read only while the request is sent, so a file that cannot be read
  fails the request, not the construction of the form.
\<close>

datatype part_content = ReadStream string | BufferData "byte list"

datatype part =
    Field string string
  | FilePart string part_content string

fun part_name :: "part \<Rightarrow> string" where
  "part_name (Field n _) = n"
| "part_name (FilePart n _ _) = n"

record request =
  url :: string
  headers :: "(string \<times> string) list"
  body :: "part list"

datatype http_result = Resolved js_value | Rejected js_error

text \<open>
  What the methods take from outside the repository: the paths that exist in the file
  system, the text of Node's error for a path it refuses, Node's base64 decoding
  \<open>Buffer.from(s, 'base64')\<close>, the multipart boundary that FormData draws, and the
  transport: \<open>axios_post\<close> resolves with \<open>response.data\<close> on a 2xx reply and rejects
  with the thrown value otherwise.
\<close>

record env =
  file_exists :: "string \<Rightarrow> bool"
  invalid_path_message :: "string \<Rightarrow> string"
  Buffer_from_base64 :: "string \<Rightarrow> byte list"
  boundary :: string
  axios_post :: "request \<Rightarrow> http_result"

text \<open>
  Node refuses a path string that holds a NUL character. \<open>fs.existsSync\<close> answers false
  for such a path, without throwing; \<open>fs.createReadStream\<close> throws a TypeError for it
  at once, before any stream exists.
\<close>

definition valid_path :: "string \<Rightarrow> bool" where
  "valid_path p = (CHR 0x00 \<notin> set p)"

definition existsSync :: "env \<Rightarrow> string \<Rightarrow> bool" where
  "existsSync e p = (valid_path p \<and> file_exists e p)"

definition createReadStream :: "env \<Rightarrow> string \<Rightarrow> js_error + part_content" where
  "createReadStream e p =
     (if valid_path p then Inr (ReadStream p)
      else Inl (JsError ''TypeError'' (invalid_path_message e p)))"

text \<open>\<open>console.error('API Error Details:', {status, statusText, data})\<close>\<close>

datatype log_entry = ApiErrorDetails "nat option" "string option" js_value

text \<open>One call of a method: the requests it sent, what it logged, and how it ended.\<close>

record 'a run =
  posts :: "request list"
  logged :: "log_entry list"
  outcome :: "js_error + 'a"

section \<open>class Dewatermark\<close>

definition eraseUrl :: string where
  "eraseUrl = ''https://platform.dewatermark.ai/api/object_removal/v1/erase_watermark''"

definition saveLargeImageUrl :: string where
  "saveLargeImageUrl = ''https://platform.dewatermark.ai/api/object_removal/v1/save_large_image''"

text \<open>
  Lines 51-63 and 126-137, the same code up to the field name: an existing path is
  streamed under its last segment, anything else is a Buffer or becomes one. The stream
  is created only for a path that \<open>existsSync\<close> accepted, hence a valid one, so this
  \<open>createReadStream\<close> does not throw.
\<close>

fun image_part :: "env \<Rightarrow> string \<Rightarrow> image_input \<Rightarrow> part" where
  "image_part e field (StringInput s) =
     (if existsSync e s
      then FilePart field (ReadStream s) (or_default (js_pop (js_split CHR ''/'' s)) ''image.png'')
      else FilePart field (BufferData (Buffer_from_base64 e s)) ''image.png'')"
| "image_part e field (BufferInput b) = FilePart field (BufferData b) ''image.png''"

text \<open>\<open>options.removeText?.toString() ?? 'true'\<close>\<close>

fun removeText_field :: "bool option \<Rightarrow> string" where
  "removeText_field None = ''true''"
| "removeText_field (Some b) = (if b then ''true'' else ''false'')"

text \<open>
  Lines 70-86, run on the form as lines 47-68 left it: the form afterwards and the error
  thrown, if any. Only \<open>fs.createReadStream(options.maskBrush)\<close> can throw here, and it
  is evaluated before the part is appended.
\<close>

definition append_masks ::
  "env \<Rightarrow> EraseWatermarkOptions \<Rightarrow> part list \<Rightarrow> part list \<times> js_error option" where
  "append_masks e options formData =
     (let with_base = formData
            @ (case truthy_string (maskBase options) of
                 Some m \<Rightarrow> [FilePart ''mask_base'' (BufferData (Buffer_from_base64 e m)) ''mask_base.jpeg'']
               | None \<Rightarrow> [])
      in case truthy_string (maskBrush options) of
           None \<Rightarrow>
             (with_base @ [Field ''remove_text'' (removeText_field (removeText options))], None)
         | Some m \<Rightarrow>
             (case createReadStream e m of
                Inl err \<Rightarrow> (with_base, Some err)
              | Inr stream \<Rightarrow>
                  (with_base
                     @ [FilePart ''mask_brush'' stream
                          (or_default (js_pop (js_split CHR ''/'' m)) ''mask_brush.png'')]
                     @ [Field ''remove_text'' (removeText_field (removeText options))],
                   None)))"

text \<open>
  Lines 47-86 of eraseWatermark: the parts appended to \<open>formData\<close>, in order, and the
  error that ended the block, if one was thrown.
\<close>

definition eraseWatermark_appended ::
  "env \<Rightarrow> EraseWatermarkOptions \<Rightarrow> part list \<times> js_error option" where
  "eraseWatermark_appended e options =
     (case truthy_image (originalPreviewImage options) of
        Some img \<Rightarrow> append_masks e options [image_part e ''original_preview_image'' img]
      | None \<Rightarrow>
          (case truthy_string (sessionId options) of
             Some sid \<Rightarrow> append_masks e options [Field ''session_id'' sid]
           | None \<Rightarrow>
               ([], Some (JsError ''Error''
                            ''Either originalPreviewImage or sessionId must be provided''))))"

text \<open>The form that reaches line 88, or the error thrown before.\<close>

definition eraseWatermark_formData :: "env \<Rightarrow> EraseWatermarkOptions \<Rightarrow> js_error + part list" where
  "eraseWatermark_formData e options =
     (case snd (eraseWatermark_appended e options) of
        Some err \<Rightarrow> Inl err
      | None \<Rightarrow> Inr (fst (eraseWatermark_appended e options)))"

text \<open>Lines 122-162: the form of saveLargeImage; nothing here throws.\<close>

definition saveLargeImage_formData :: "env \<Rightarrow> SaveLargeImageOptions \<Rightarrow> part list" where
  "saveLargeImage_formData e options =
     (case truthy_image (originalLargeImage options) of
        Some img \<Rightarrow> [image_part e ''original_large_image'' img]
      | None \<Rightarrow> [])
     @ (case truthy_string (previewImageToSave options) of
          Some p \<Rightarrow> [FilePart ''preview_image_to_save'' (BufferData (Buffer_from_base64 e p))
                       ''preview_image_to_save.jpeg'']
        | None \<Rightarrow> [])
     @ (case truthy_string (previewMaskToSave options) of
          Some m \<Rightarrow> [FilePart ''preview_mask_to_save'' (BufferData (Buffer_from_base64 e m))
                       ''preview_mask_to_save.jpeg'']
        | None \<Rightarrow> [])
     @ (case truthy_string (save_sessionId options) of
          Some sid \<Rightarrow> [Field ''session_id'' sid]
        | None \<Rightarrow> [])
     @ [Field ''remove_text'' (removeText_field (save_removeText options))]"

text \<open>\<open>{ 'x-api-key': this.apiKey, ...formData.getHeaders() }\<close>\<close>

definition request_headers :: "env \<Rightarrow> string \<Rightarrow> (string \<times> string) list" where
  "request_headers e apiKey =
     [(''x-api-key'', apiKey),
      (''content-type'', ''multipart/form-data; boundary='' @ boundary e)]"

text \<open>Sequencing of steps that can throw: the first error ends the block.\<close>

fun and_then :: "'e + 'a \<Rightarrow> ('a \<Rightarrow> 'e + 'b) \<Rightarrow> 'e + 'b" where
  "and_then (Inl err) f = Inl err"
| "and_then (Inr x) f = f x"

text \<open>
  Lines 96-102: the object returned. The properties are read in the order of the object
  literal, and each read can throw.
\<close>

definition erase_result :: "js_value \<Rightarrow> js_error + EraseWatermarkResponse" where
  "erase_result responseData =
     and_then (get_prop responseData ''session_id'') (\<lambda>sid.
     and_then (get_prop responseData ''edited_image'') (\<lambda>ed1.
     and_then (get_prop ed1 ''image'') (\<lambda>img.
     and_then (get_prop responseData ''edited_image'') (\<lambda>ed2.
     and_then (get_prop ed2 ''mask'') (\<lambda>msk.
     and_then (get_prop responseData ''edited_image'') (\<lambda>ed3.
     and_then (get_prop ed3 ''watermark_mask'') (\<lambda>wm.
     Inr \<lparr>res_sessionId = sid, imageBase64 = img, res_maskBase = msk,
          watermarkMask = wm\<rparr>)))))))"

text \<open>Lines 172-175.\<close>

definition save_result :: "js_value \<Rightarrow> js_error + SaveLargeImageResponse" where
  "save_result responseData =
     and_then (get_prop responseData ''large_image_to_save'') (\<lambda>img.
     Inr \<lparr>largeImageToSave = img\<rparr>)"

text \<open>\<open>error.response?.data\<close> and \<open>error.response?.data?.message\<close>\<close>

fun response_data :: "axios_response option \<Rightarrow> js_value" where
  "response_data None = JUndefined"
| "response_data (Some r) = data r"

definition remote_message :: "axios_response option \<Rightarrow> js_value" where
  "remote_message response = opt_prop (response_data response) ''message''"

text \<open>
  Lines 103-113 and 176-186, the same catch block: what it logs and what it throws.
  \<open>error.response?.status\<close> and \<open>error.response?.statusText\<close> are undefined without a
  response. The template literal is evaluated after the logging; when its conversion
  throws, that TypeError leaves the catch block in place of the new Error.
\<close>

fun catch_block :: "js_error \<Rightarrow> log_entry list \<times> js_error" where
  "catch_block (AxiosError message response) =
     ([ApiErrorDetails (map_option status response) (map_option statusText response)
         (response_data response)],
      (case js_toString (js_or (remote_message response) (JStr message)) of
         Inl err \<Rightarrow> err
       | Inr described \<Rightarrow> JsError ''Error'' (''API Error: '' @ described)))"
| "catch_block (JsError name message) = ([], JsError name message)"

text \<open>The try statement around the request and the mapping of its reply.\<close>

definition try_post ::
  "env \<Rightarrow> request \<Rightarrow> (js_value \<Rightarrow> js_error + 'a) \<Rightarrow> 'a run" where
  "try_post e req result_of =
     (case (case axios_post e req of
              Resolved responseData \<Rightarrow> result_of responseData
            | Rejected err \<Rightarrow> Inl err) of
        Inr r \<Rightarrow> \<lparr>posts = [req], logged = [], outcome = Inr r\<rparr>
      | Inl err \<Rightarrow>
          \<lparr>posts = [req], logged = fst (catch_block err), outcome = Inl (snd (catch_block err))\<rparr>)"

definition eraseWatermark :: "env \<Rightarrow> string \<Rightarrow> EraseWatermarkOptions \<Rightarrow> EraseWatermarkResponse run" where
  "eraseWatermark e apiKey options =
     (case eraseWatermark_formData e options of
        Inl err \<Rightarrow> \<lparr>posts = [], logged = [], outcome = Inl err\<rparr>
      | Inr formData \<Rightarrow>
          try_post e \<lparr>url = eraseUrl, headers = request_headers e apiKey, body = formData\<rparr>
            erase_result)"

definition saveLargeImage :: "env \<Rightarrow> string \<Rightarrow> SaveLargeImageOptions \<Rightarrow> SaveLargeImageResponse run" where
  "saveLargeImage e apiKey options =
     try_post e
       \<lparr>url = saveLargeImageUrl, headers = request_headers e apiKey,
        body = saveLargeImage_formData e options\<rparr>
       save_result"

section \<open>The words of the specification\<close>

text \<open>The final segment of a path: what follows its last slash, all of it when there is none.\<close>

definition final_path_segment :: "string \<Rightarrow> string" where
  "final_path_segment p = rev (takeWhile (\<lambda>c. c \<noteq> CHR ''/'') (rev p))"

text \<open>The message field of the response body, when the reply has a body with such a field.\<close>

fun body_message :: "axios_response option \<Rightarrow> js_value option" where
  "body_message (Some (Response _ _ (JObj kvs))) = map_of kvs ''message''"
| "body_message _ = None"

text \<open>
  A value that has a text: anything but an object with a \<open>toString\<close> property of its own,
  or an array that holds such an object, directly or inside further arrays.
\<close>

fun has_text :: "js_value \<Rightarrow> bool" where
  "has_text (JObj kvs) = (map_of kvs ''toString'' = None)"
| "has_text (JArr vs) = list_all has_text vs"
| "has_text _ = True"

section \<open>An example environment\<close>

text \<open>
  A base64 decoder for the examples: characters outside the alphabet are skipped and the
  first padding sign ends the input.
\<close>

definition b64_index :: "char \<Rightarrow> nat option" where
  "b64_index c =
     (let n = (of_char c :: nat) in
      if 65 \<le> n \<and> n \<le> 90 then Some (n - 65)
      else if 97 \<le> n \<and> n \<le> 122 then Some (n - 71)
      else if 48 \<le> n \<and> n \<le> 57 then Some (n + 4)
      else if c = CHR ''+'' \<or> c = CHR ''-'' then Some 62
      else if c = CHR ''/'' \<or> c = CHR ''_'' then Some 63
      else None)"

fun b64_bytes :: "nat list \<Rightarrow> byte list" where
  "b64_bytes (a # b # c # d # rest) =
     [of_nat (a * 4 + b div 16), of_nat (b * 16 + c div 4), of_nat (c * 64 + d)] @ b64_bytes rest"
| "b64_bytes [a, b, c] = [of_nat (a * 4 + b div 16), of_nat (b * 16 + c div 4)]"
| "b64_bytes [a, b] = [of_nat (a * 4 + b div 16)]"
| "b64_bytes _ = []"

definition b64decode :: "string \<Rightarrow> byte list" where
  "b64decode s = b64_bytes (List.map_filter b64_index (takeWhile (\<lambda>c. c \<noteq> CHR ''='') s))"

text \<open>
  Three paths exist, one of them (\<open>aGk=\<close>) also well-formed base64; every request gets
  the given reply.
\<close>

definition example_env :: "http_result \<Rightarrow> env" where
  "example_env reply =
     \<lparr>file_exists = (\<lambda>p. p \<in> set [''/tmp/in.jpeg'', ''/tmp/'', ''aGk='']),
      invalid_path_message =
        (\<lambda>p. ''The argument path must be a string, Uint8Array, or URL without null bytes.''),
      Buffer_from_base64 = b64decode,
      boundary = ''--------------------------0123456789'',
      axios_post = (\<lambda>req. reply)\<rparr>"

text \<open>Options, the requests they give in the example environment, and replies.\<close>

definition session_options :: EraseWatermarkOptions where
  "session_options =
     \<lparr>originalPreviewImage = None, maskBase = None, maskBrush = None,
      sessionId = Some ''abc'', removeText = None\<rparr>"

definition session_request :: request where
  "session_request =
     \<lparr>url = eraseUrl,
      headers = [(''x-api-key'', ''key''),
                 (''content-type'', ''multipart/form-data; boundary=--------------------------0123456789'')],
      body = [Field ''session_id'' ''abc'', Field ''remove_text'' ''true'']\<rparr>"

definition preview_options :: SaveLargeImageOptions where
  "preview_options =
     \<lparr>originalLargeImage = None, previewImageToSave = Some ''aGk='',
      previewMaskToSave = None, save_sessionId = Some ''abc'', save_removeText = None\<rparr>"

definition preview_request :: request where
  "preview_request =
     \<lparr>url = saveLargeImageUrl,
      headers = [(''x-api-key'', ''key''),
                 (''content-type'', ''multipart/form-data; boundary=--------------------------0123456789'')],
      body = [FilePart ''preview_image_to_save'' (BufferData (b64decode ''aGk=''))
                ''preview_image_to_save.jpeg'',
              Field ''session_id'' ''abc'',
              Field ''remove_text'' ''true'']\<rparr>"

definition masked_options :: EraseWatermarkOptions where
  "masked_options =
     \<lparr>originalPreviewImage = Some (StringInput ''aGVsbG8=''), maskBase = Some ''aGk='',
      maskBrush = Some ''masks/brush.png'', sessionId = Some ''abc'', removeText = Some False\<rparr>"

definition erase_success :: js_value where
  "erase_success =
     JObj [(''session_id'', JStr ''abc''),
           (''edited_image'',
            JObj [(''image'', JStr ''A''), (''mask'', JStr ''B''), (''watermark_mask'', JStr ''C'')])]"

definition quota_exceeded :: js_error where
  "quota_exceeded =
     AxiosError ''Request failed with status code 402''
       (Some (Response 402 ''Payment Required'' (JObj [(''message'', JStr ''quota exceeded'')])))"

definition too_many_requests :: js_error where
  "too_many_requests =
     AxiosError ''Request failed with status code 429''
       (Some (Response 429 ''Too Many Requests''
          (JObj [(''message'', JStr ''quota exceeded''), (''retry_after'', JNum True ''30'')])))"

definition bad_request :: "js_value \<Rightarrow> js_error" where
  "bad_request reply_body =
     AxiosError ''Request failed with status code 400''
       (Some (Response 400 ''Bad Request'' reply_body))"

definition image_options :: "string \<Rightarrow> EraseWatermarkOptions" where
  "image_options s =
     \<lparr>originalPreviewImage = Some (StringInput s), maskBase = None, maskBrush = None,
      sessionId = None, removeText = None\<rparr>"

definition nul_path :: string where
  "nul_path = [CHR ''a'', CHR 0x00, CHR ''b'']"

definition nul_brush_options :: EraseWatermarkOptions where
  "nul_brush_options =
     \<lparr>originalPreviewImage = Some (StringInput ''aGVsbG8=''), maskBase = Some ''aGk='',
      maskBrush = Some nul_path, sessionId = Some ''abc'', removeText = None\<rparr>"

definition network_error :: js_error where
  "network_error = AxiosError ''Network Error'' None"

section \<open>Auxiliary facts\<close>

lemma js_split_nonempty: "js_split sep s \<noteq> []"
  by (induction s) (auto split: list.splits)

lemma js_split_no_sep: "sep \<notin> set s \<Longrightarrow> js_split sep s = [s]"
  by (induction s) auto

lemma js_split_length: "length (js_split sep s) = Suc (length (filter (\<lambda>c. c = sep) s))"
  by (induction s) (auto split: list.splits)

lemma js_split_sep_tail: "sep \<in> set s \<Longrightarrow> \<exists>w v vs. js_split sep s = w # v # vs"
proof -
  assume "sep \<in> set s"
  then have "filter (\<lambda>c. c = sep) s \<noteq> []" by (simp add: filter_empty_conv)
  then have "length (js_split sep s) \<ge> 2" by (simp add: js_split_length Suc_le_eq)
  then show ?thesis by (cases "js_split sep s"; cases "tl (js_split sep s)") auto
qed

lemma last_js_split: "last (js_split sep s) = rev (takeWhile (\<lambda>c. c \<noteq> sep) (rev s))"
proof (induction s)
  case Nil
  then show ?case by simp
next
  case (Cons c cs)
  show ?case
  proof (cases "sep \<in> set cs")
    case True
    then obtain w v vs where "js_split sep cs = w # v # vs" using js_split_sep_tail by blast
    then show ?thesis using True Cons.IH by (auto simp: takeWhile_append)
  next
    case False
    then show ?thesis using Cons.IH by (auto simp: js_split_no_sep takeWhile_append)
  qed
qed

lemma filename_of_path:
  "or_default (js_pop (js_split CHR ''/'' p)) d =
     (if final_path_segment p = [] then d else final_path_segment p)"
  by (simp add: or_default_def js_pop_def js_split_nonempty last_js_split final_path_segment_def)

lemma posts_try_post: "posts (try_post e req f) = [req]"
  by (simp add: try_post_def split: sum.split)

lemma try_post_rejected:
  "axios_post e req = Rejected err \<Longrightarrow>
   try_post e req f =
     \<lparr>posts = [req], logged = fst (catch_block err), outcome = Inl (snd (catch_block err))\<rparr>"
  by (simp add: try_post_def)

lemma try_post_resolved:
  "axios_post e req = Resolved d \<Longrightarrow> f d = Inr r \<Longrightarrow>
   try_post e req f = \<lparr>posts = [req], logged = [], outcome = Inr r\<rparr>"
  by (simp add: try_post_def)

lemma try_post_result_error:
  "axios_post e req = Resolved d \<Longrightarrow> f d = Inl err \<Longrightarrow>
   try_post e req f =
     \<lparr>posts = [req], logged = fst (catch_block err), outcome = Inl (snd (catch_block err))\<rparr>"
  by (simp add: try_post_def)

lemma catch_block_not_axios: "\<not> isAxiosError err \<Longrightarrow> catch_block err = ([], err)"
  by (cases err) simp_all

lemma truthy_string_Some: "truthy_string x = Some s \<longleftrightarrow> x = Some s \<and> s \<noteq> []"
  by (cases x) auto

lemma truthy_string_None: "truthy_string x = None \<longleftrightarrow> x = None \<or> x = Some []"
  by (cases x) auto

lemma guarded_stream: "existsSync e p \<Longrightarrow> createReadStream e p = Inr (ReadStream p)"
  by (simp add: existsSync_def createReadStream_def)

lemma append_masks_extends: "\<exists>rest. fst (append_masks e options formData) = formData @ rest"
  by (auto simp: append_masks_def Let_def split: option.splits sum.splits)

lemma append_masks_valid_brush:
  assumes "\<And>b. maskBrush options = Some b \<Longrightarrow> valid_path b"
  shows "snd (append_masks e options formData) = None"
proof (cases "truthy_string (maskBrush options)")
  case None
  then show ?thesis by (simp add: append_masks_def Let_def)
next
  case (Some b)
  then have "valid_path b" using assms by (simp add: truthy_string_Some)
  then show ?thesis using Some by (simp add: append_masks_def Let_def createReadStream_def)
qed

lemma append_masks_invalid_brush:
  assumes "maskBrush options = Some b" and "\<not> valid_path b"
  shows "snd (append_masks e options formData) =
    Some (JsError ''TypeError'' (invalid_path_message e b))"
proof -
  from assms(2) have "b \<noteq> []" by (auto simp: valid_path_def)
  then have "truthy_string (maskBrush options) = Some b"
    using assms(1) by (simp add: truthy_string_Some)
  then show ?thesis using assms(2) by (simp add: append_masks_def Let_def createReadStream_def)
qed

lemma append_masks_error:
  assumes "snd (append_masks e options formData) = Some err"
  shows "\<exists>b. maskBrush options = Some b \<and> \<not> valid_path b
     \<and> err = JsError ''TypeError'' (invalid_path_message e b)"
proof (cases "truthy_string (maskBrush options)")
  case None
  then show ?thesis using assms by (simp add: append_masks_def Let_def)
next
  case (Some b)
  then have b: "maskBrush options = Some b" by (simp add: truthy_string_Some)
  show ?thesis
  proof (cases "valid_path b")
    case True
    then show ?thesis using assms Some by (simp add: append_masks_def Let_def createReadStream_def)
  next
    case False
    then show ?thesis using assms Some b
      by (simp add: append_masks_def Let_def createReadStream_def)
  qed
qed

lemma append_masks_built:
  assumes "snd (append_masks e options formData) = None"
  shows "fst (append_masks e options formData) =
    formData
    @ (case truthy_string (maskBase options) of
         Some m \<Rightarrow> [FilePart ''mask_base'' (BufferData (Buffer_from_base64 e m)) ''mask_base.jpeg'']
       | None \<Rightarrow> [])
    @ (case truthy_string (maskBrush options) of
         Some m \<Rightarrow> [FilePart ''mask_brush'' (ReadStream m)
                      (or_default (js_pop (js_split CHR ''/'' m)) ''mask_brush.png'')]
       | None \<Rightarrow> [])
    @ [Field ''remove_text'' (removeText_field (removeText options))]"
  using assms
  by (auto simp: append_masks_def Let_def createReadStream_def
      split: option.splits sum.splits if_splits)

lemma first_error_all_results:
  "(\<And>r. r \<in> set rs \<Longrightarrow> \<exists>x. r = Inr x) \<Longrightarrow> \<exists>xs. first_error rs = Inr xs"
proof (induction rs)
  case Nil
  then show ?case by simp
next
  case (Cons r rs)
  then obtain x where "r = Inr x" by auto
  moreover obtain xs where "first_error rs = Inr xs" using Cons by auto
  ultimately show ?case by simp
qed

lemma has_text_converts: "has_text v \<Longrightarrow> \<exists>described. js_toString v = Inr described"
proof (induction v)
  case (JArr vs)
  have "\<exists>x. r = Inr x"
    if "r \<in> set (map (\<lambda>v. if v = JNull \<or> v = JUndefined then Inr [] else js_toString v) vs)"
    for r
  proof -
    from that obtain v where v: "v \<in> set vs"
      and r: "r = (if v = JNull \<or> v = JUndefined then Inr [] else js_toString v)"
      by auto
    from v JArr.prems have "has_text v" by (simp add: list_all_iff)
    with v JArr.IH obtain d where "js_toString v = Inr d" by blast
    with r show ?thesis by auto
  qed
  then obtain texts where
    "first_error (map (\<lambda>v. if v = JNull \<or> v = JUndefined then Inr [] else js_toString v) vs)
       = Inr texts"
    using first_error_all_results by blast
  then show ?case by simp
qed simp_all

lemma remote_message_body:
  "remote_message response = (case body_message response of None \<Rightarrow> JUndefined | Some v \<Rightarrow> v)"
proof (cases response)
  case None
  then show ?thesis by (simp add: remote_message_def)
next
  case (Some r)
  then show ?thesis
    by (cases r; cases "data r") (auto simp: remote_message_def)
qed

lemma eraseWatermark_built:
  "eraseWatermark_formData e options = Inr formData \<Longrightarrow>
   eraseWatermark e apiKey options =
     try_post e \<lparr>url = eraseUrl, headers = request_headers e apiKey, body = formData\<rparr> erase_result"
  by (simp add: eraseWatermark_def)

lemma eraseWatermark_thrown:
  "eraseWatermark_formData e options = Inl err \<Longrightarrow>
   eraseWatermark e apiKey options = \<lparr>posts = [], logged = [], outcome = Inl err\<rparr>"
  by (simp add: eraseWatermark_def)

lemma eraseWatermark_sent:
  "posts (eraseWatermark e apiKey options) = [req] \<Longrightarrow>
   eraseWatermark e apiKey options = try_post e req erase_result"
  by (auto simp: eraseWatermark_def posts_try_post split: sum.splits)

lemma saveLargeImage_sent:
  "posts (saveLargeImage e apiKey options) = [req] \<Longrightarrow>
   saveLargeImage e apiKey options = try_post e req save_result"
  by (auto simp: saveLargeImage_def posts_try_post)

lemma part_name_image_part: "part_name (image_part e field img) = field"
  by (cases img) simp_all

lemma erase_result_shape:
  "erase_result (JObj [(''session_id'', s),
      (''edited_image'', JObj [(''image'', a), (''mask'', b), (''watermark_mask'', c)])]) =
   Inr \<lparr>res_sessionId = s, imageBase64 = a, res_maskBase = b, watermarkMask = c\<rparr>"
  by (simp add: erase_result_def)

lemma example_post: "axios_post (example_env reply) req = reply"
  by (simp add: example_env_def)

lemma example_decoder: "Buffer_from_base64 (example_env reply) = b64decode"
  by (simp add: example_env_def)

lemma example_paths:
  "existsSync (example_env reply) ''aGk=''"
  "existsSync (example_env reply) ''/tmp/''"
  "\<not> existsSync (example_env reply) ''aGVsbG8=''"
  by (simp_all add: example_env_def existsSync_def valid_path_def)

lemma session_options_form:
  "eraseWatermark_formData (example_env reply) session_options =
     Inr [Field ''session_id'' ''abc'', Field ''remove_text'' ''true'']"
  by (simp add: eraseWatermark_formData_def eraseWatermark_appended_def append_masks_def
      session_options_def)

lemma session_options_posts:
  "posts (eraseWatermark (example_env reply) ''key'' session_options) = [session_request]"
proof -
  have "boundary (example_env reply) = ''--------------------------0123456789''"
    by (simp add: example_env_def)
  then show ?thesis
    by (simp add: eraseWatermark_built [OF session_options_form] posts_try_post
        session_request_def request_headers_def)
qed

lemma preview_options_posts:
  "posts (saveLargeImage (example_env reply) ''key'' preview_options) = [preview_request]"
proof -
  have "boundary (example_env reply) = ''--------------------------0123456789''"
    and "Buffer_from_base64 (example_env reply) = b64decode"
    by (simp_all add: example_env_def)
  then show ?thesis
    by (simp add: saveLargeImage_def saveLargeImage_formData_def posts_try_post
        preview_options_def preview_request_def request_headers_def)
qed

lemma masked_options_form:
  "eraseWatermark_formData (example_env reply) masked_options =
     Inr [FilePart ''original_preview_image'' (BufferData (b64decode ''aGVsbG8='')) ''image.png'',
          FilePart ''mask_base'' (BufferData (b64decode ''aGk='')) ''mask_base.jpeg'',
          FilePart ''mask_brush'' (ReadStream ''masks/brush.png'') ''brush.png'',
          Field ''remove_text'' ''false'']"
proof -
  have "valid_path ''masks/brush.png''" by (simp add: valid_path_def)
  then show ?thesis
    by (simp add: eraseWatermark_formData_def eraseWatermark_appended_def append_masks_def
        createReadStream_def masked_options_def example_paths example_decoder
        or_default_def js_pop_def)
qed

lemma erase_form_built:
  assumes "eraseWatermark_formData e options = Inr formData"
  shows "\<exists>first. formData =
    [first]
    @ (case truthy_string (maskBase options) of
         Some m \<Rightarrow> [FilePart ''mask_base'' (BufferData (Buffer_from_base64 e m)) ''mask_base.jpeg'']
       | None \<Rightarrow> [])
    @ (case truthy_string (maskBrush options) of
         Some m \<Rightarrow> [FilePart ''mask_brush'' (ReadStream m)
                      (or_default (js_pop (js_split CHR ''/'' m)) ''mask_brush.png'')]
       | None \<Rightarrow> [])
    @ [Field ''remove_text'' (removeText_field (removeText options))]
    \<and> (part_name first = ''original_preview_image'' \<or> part_name first = ''session_id'')"
proof -
  from assms have none: "snd (eraseWatermark_appended e options) = None"
    and form: "formData = fst (eraseWatermark_appended e options)"
    by (auto simp: eraseWatermark_formData_def split: option.splits)
  show ?thesis
  proof (cases "truthy_image (originalPreviewImage options)")
    case (Some img)
    then have eq: "eraseWatermark_appended e options =
        append_masks e options [image_part e ''original_preview_image'' img]"
      by (simp add: eraseWatermark_appended_def)
    show ?thesis
      using append_masks_built [of e options "[image_part e ''original_preview_image'' img]"]
        none form eq
      by (auto simp: part_name_image_part)
  next
    case None
    show ?thesis
    proof (cases "truthy_string (sessionId options)")
      case (Some sid)
      then have eq: "eraseWatermark_appended e options =
          append_masks e options [Field ''session_id'' sid]"
        using None by (simp add: eraseWatermark_appended_def)
      show ?thesis
        using append_masks_built [of e options "[Field ''session_id'' sid]"] none form eq
        by auto
    next
      case None2: None
      then show ?thesis using None none by (simp add: eraseWatermark_appended_def)
    qed
  qed
qed

lemma catch_block_logged:
  "fst (catch_block (AxiosError message response)) =
     [ApiErrorDetails (map_option status response) (map_option statusText response)
        (response_data response)]"
  by simp

lemma catch_block_truthy:
  assumes "body_message response = Some v" and "truthy v" and "js_toString v = Inr described"
  shows "snd (catch_block (AxiosError message response)) =
    JsError ''Error'' (''API Error: '' @ described)"
  using assms by (simp add: remote_message_body js_or_def)

lemma catch_block_fallback:
  assumes "body_message response = None \<or> (\<exists>v. body_message response = Some v \<and> \<not> truthy v)"
  shows "snd (catch_block (AxiosError message response)) =
    JsError ''Error'' (''API Error: '' @ message)"
  using assms by (auto simp: remote_message_body js_or_def)

lemma catch_block_has_text:
  assumes "\<forall>v. body_message response = Some v \<longrightarrow> has_text v"
  shows "\<exists>described. snd (catch_block (AxiosError message response)) =
    JsError ''Error'' (''API Error: '' @ described)"
proof (cases "truthy (remote_message response)")
  case True
  then obtain v where v: "body_message response = Some v" and r: "remote_message response = v"
    by (cases "body_message response") (auto simp: remote_message_body)
  with assms have "has_text v" by simp
  then obtain d where "js_toString v = Inr d" using has_text_converts by blast
  then show ?thesis using True r by (simp add: js_or_def)
next
  case False
  then show ?thesis by (simp add: js_or_def)
qed

lemma erase_rejected:
  assumes "axios_post e req = Rejected err" and "posts (eraseWatermark e apiKey eo) = [req]"
  shows "eraseWatermark e apiKey eo =
    \<lparr>posts = [req], logged = fst (catch_block err), outcome = Inl (snd (catch_block err))\<rparr>"
  using eraseWatermark_sent [OF assms(2)] try_post_rejected [OF assms(1), where f = erase_result]
  by simp

lemma save_rejected:
  assumes "axios_post e req = Rejected err" and "posts (saveLargeImage e apiKey so) = [req]"
  shows "saveLargeImage e apiKey so =
    \<lparr>posts = [req], logged = fst (catch_block err), outcome = Inl (snd (catch_block err))\<rparr>"
  using saveLargeImage_sent [OF assms(2)] try_post_rejected [OF assms(1), where f = save_result]
  by simp

lemma image_options_form:
  "eraseWatermark_formData (example_env reply) (image_options s) =
     Inr [image_part (example_env reply) ''original_preview_image'' (StringInput s),
          Field ''remove_text'' ''true'']" if "s \<noteq> []"
  using that
  by (simp add: eraseWatermark_formData_def eraseWatermark_appended_def append_masks_def
      image_options_def)

lemma nul_path_invalid: "CHR 0x00 \<in> set nul_path"
  by (simp add: nul_path_def)

lemma nul_brush_appended:
  "eraseWatermark_appended (example_env reply) nul_brush_options =
     ([FilePart ''original_preview_image'' (BufferData (b64decode ''aGVsbG8='')) ''image.png'',
       FilePart ''mask_base'' (BufferData (b64decode ''aGk='')) ''mask_base.jpeg''],
      Some (JsError ''TypeError''
        ''The argument path must be a string, Uint8Array, or URL without null bytes.''))"
proof -
  have "nul_path \<noteq> []" "\<not> valid_path nul_path"
    by (simp_all add: nul_path_def valid_path_def)
  moreover have "invalid_path_message (example_env reply) nul_path =
      ''The argument path must be a string, Uint8Array, or URL without null bytes.''"
    by (simp add: example_env_def)
  ultimately show ?thesis
    by (simp add: eraseWatermark_appended_def append_masks_def createReadStream_def
        nul_brush_options_def example_paths example_decoder)
qed

section \<open>The claims\<close>

text \<open>
  C1. An eraseWatermark call whose options hold neither an image source nor a session
  identifier (each undefined or the empty string, which JavaScript takes for false) ends
  with the configuration error, and no request has been sent: the error is thrown while
  the form is built, before the POST.
\<close>

theorem eraseWatermark_without_source:
  assumes "originalPreviewImage options = None \<or> originalPreviewImage options = Some (StringInput [])"
    and "sessionId options = None \<or> sessionId options = Some []"
  shows "eraseWatermark e apiKey options =
           \<lparr>posts = [], logged = [],
            outcome = Inl (JsError ''Error''
              ''Either originalPreviewImage or sessionId must be provided'')\<rparr>"
  using assms
  by (auto simp: eraseWatermark_def eraseWatermark_formData_def eraseWatermark_appended_def)

theorem eraseWatermark_without_source_witness:
  "eraseWatermark (example_env (Resolved JNull)) ''key''
     \<lparr>originalPreviewImage = None, maskBase = Some ''aGk='', maskBrush = None,
      sessionId = None, removeText = Some True\<rparr> =
   \<lparr>posts = [], logged = [],
    outcome = Inl (JsError ''Error''
      ''Either originalPreviewImage or sessionId must be provided'')\<rparr>"
proof -
  have h1: "originalPreviewImage \<lparr>originalPreviewImage = None, maskBase = Some ''aGk='',
      maskBrush = None, sessionId = None, removeText = Some True\<rparr> = None
    \<or> originalPreviewImage \<lparr>originalPreviewImage = None, maskBase = Some ''aGk='',
      maskBrush = None, sessionId = None, removeText = Some True\<rparr> = Some (StringInput [])"
    by simp
  have h2: "sessionId \<lparr>originalPreviewImage = None, maskBase = Some ''aGk='',
      maskBrush = None, sessionId = None, removeText = Some True\<rparr> = None
    \<or> sessionId \<lparr>originalPreviewImage = None, maskBase = Some ''aGk='',
      maskBrush = None, sessionId = None, removeText = Some True\<rparr> = Some []"
    by simp
  show ?thesis
    using eraseWatermark_without_source [OF h1 h2, of "example_env (Resolved JNull)" "''key''"]
    by simp
qed

text \<open>
  C2. A string supplied as the image source of eraseWatermark (supplied: not empty) becomes
  the first part appended to the form. If the string is an existing path, the part streams
  that file under the final segment of the path, or under \<open>image.png\<close> when that segment
  is empty; otherwise the part is the base64 decoding of the string under \<open>image.png\<close>.
  Only the existence test chooses between the two: a string that is both an existing path
  and well-formed base64 is a path. The form built this way is the body of the request,
  unless the mask brush path holds a NUL character: then \<open>fs.createReadStream\<close> throws
  at line 80, after the image part was appended, and nothing is sent.
\<close>

theorem eraseWatermark_string_image_source:
  assumes "originalPreviewImage options = Some (StringInput p)" and "p \<noteq> []"
  shows "\<exists>rest.
    fst (eraseWatermark_appended e options) =
      (if existsSync e p
         then FilePart ''original_preview_image'' (ReadStream p)
                (if final_path_segment p = [] then ''image.png'' else final_path_segment p)
         else FilePart ''original_preview_image'' (BufferData (Buffer_from_base64 e p))
                ''image.png'') # rest
    \<and> ((\<forall>b. maskBrush options = Some b \<longrightarrow> CHR 0x00 \<notin> set b) \<longrightarrow>
          eraseWatermark_formData e options =
            Inr ((if existsSync e p
         then FilePart ''original_preview_image'' (ReadStream p)
                (if final_path_segment p = [] then ''image.png'' else final_path_segment p)
         else FilePart ''original_preview_image'' (BufferData (Buffer_from_base64 e p))
                ''image.png'') # rest)
          \<and> map body (posts (eraseWatermark e apiKey options)) =
            [(if existsSync e p
         then FilePart ''original_preview_image'' (ReadStream p)
                (if final_path_segment p = [] then ''image.png'' else final_path_segment p)
         else FilePart ''original_preview_image'' (BufferData (Buffer_from_base64 e p))
                ''image.png'') # rest])
    \<and> (\<forall>b. maskBrush options = Some b \<and> CHR 0x00 \<in> set b \<longrightarrow>
          eraseWatermark e apiKey options =
            \<lparr>posts = [], logged = [],
             outcome = Inl (JsError ''TypeError'' (invalid_path_message e b))\<rparr>)"
proof -
  let ?part = "image_part e ''original_preview_image'' (StringInput p)"
  have part: "?part =
      (if existsSync e p
         then FilePart ''original_preview_image'' (ReadStream p)
                (if final_path_segment p = [] then ''image.png'' else final_path_segment p)
         else FilePart ''original_preview_image'' (BufferData (Buffer_from_base64 e p))
                ''image.png'')"
    by (simp add: filename_of_path)
  have appended: "eraseWatermark_appended e options = append_masks e options [?part]"
    using assms by (simp add: eraseWatermark_appended_def)
  obtain rest where rest: "fst (eraseWatermark_appended e options) = ?part # rest"
    using append_masks_extends [of e options "[?part]"] appended by auto
  have built: "eraseWatermark_formData e options = Inr (?part # rest)
      \<and> map body (posts (eraseWatermark e apiKey options)) = [?part # rest]"
    if "\<forall>b. maskBrush options = Some b \<longrightarrow> CHR 0x00 \<notin> set b"
  proof -
    have "snd (eraseWatermark_appended e options) = None"
      using that appended append_masks_valid_brush [of options e "[?part]"]
      by (simp add: valid_path_def)
    then have form: "eraseWatermark_formData e options = Inr (?part # rest)"
      using rest by (simp add: eraseWatermark_formData_def)
    then show ?thesis by (simp add: eraseWatermark_built [OF form] posts_try_post)
  qed
  have thrown: "eraseWatermark e apiKey options =
      \<lparr>posts = [], logged = [],
       outcome = Inl (JsError ''TypeError'' (invalid_path_message e b))\<rparr>"
    if "maskBrush options = Some b \<and> CHR 0x00 \<in> set b" for b
  proof -
    have "snd (eraseWatermark_appended e options) =
        Some (JsError ''TypeError'' (invalid_path_message e b))"
      using that appended append_masks_invalid_brush [of options b e "[?part]"]
      by (simp add: valid_path_def)
    then have "eraseWatermark_formData e options =
        Inl (JsError ''TypeError'' (invalid_path_message e b))"
      by (simp add: eraseWatermark_formData_def)
    then show ?thesis by (rule eraseWatermark_thrown)
  qed
  have "\<exists>rest.
    fst (eraseWatermark_appended e options) = ?part # rest
    \<and> ((\<forall>b. maskBrush options = Some b \<longrightarrow> CHR 0x00 \<notin> set b) \<longrightarrow>
          eraseWatermark_formData e options = Inr (?part # rest)
          \<and> map body (posts (eraseWatermark e apiKey options)) = [?part # rest])
    \<and> (\<forall>b. maskBrush options = Some b \<and> CHR 0x00 \<in> set b \<longrightarrow>
          eraseWatermark e apiKey options =
            \<lparr>posts = [], logged = [],
             outcome = Inl (JsError ''TypeError'' (invalid_path_message e b))\<rparr>)"
    using rest built thrown by (intro exI [of _ rest] conjI impI allI) simp_all
  then show ?thesis unfolding part .
qed

theorem eraseWatermark_string_image_source_witness:
  "eraseWatermark_formData (example_env (Resolved JNull)) (image_options ''aGk='') =
     Inr [FilePart ''original_preview_image'' (ReadStream ''aGk='') ''aGk='',
          Field ''remove_text'' ''true'']
   \<and> map body (posts (eraseWatermark (example_env (Resolved JNull)) ''key''
        (image_options ''/tmp/''))) =
     [[FilePart ''original_preview_image'' (ReadStream ''/tmp/'') ''image.png'',
       Field ''remove_text'' ''true'']]
   \<and> map body (posts (eraseWatermark (example_env (Resolved JNull)) ''key''
        (image_options ''aGVsbG8=''))) =
     [[FilePart ''original_preview_image'' (BufferData (b64decode ''aGVsbG8='')) ''image.png'',
       Field ''remove_text'' ''true'']]
   \<and> fst (eraseWatermark_appended (example_env (Resolved JNull)) nul_brush_options) =
     [FilePart ''original_preview_image'' (BufferData (b64decode ''aGVsbG8='')) ''image.png'',
      FilePart ''mask_base'' (BufferData (b64decode ''aGk='')) ''mask_base.jpeg'']
   \<and> eraseWatermark (example_env (Resolved JNull)) ''key'' nul_brush_options =
     \<lparr>posts = [], logged = [],
      outcome = Inl (JsError ''TypeError''
        ''The argument path must be a string, Uint8Array, or URL without null bytes.'')\<rparr>"
proof -
  have seg: "final_path_segment ''aGk='' = ''aGk=''" "final_path_segment ''/tmp/'' = []"
    by (simp_all add: final_path_segment_def)
  have img: "originalPreviewImage (image_options s) = Some (StringInput s)"
    and brush: "maskBrush (image_options s) = None" for s
    by (simp_all add: image_options_def)
  have nul: "originalPreviewImage nul_brush_options = Some (StringInput ''aGVsbG8='')"
    "maskBrush nul_brush_options = Some nul_path"
    by (simp_all add: nul_brush_options_def)
  have msg: "invalid_path_message (example_env (Resolved JNull)) nul_path =
      ''The argument path must be a string, Uint8Array, or URL without null bytes.''"
    by (simp add: example_env_def)
  have ne: "''aGk='' \<noteq> []" "''/tmp/'' \<noteq> []" "''aGVsbG8='' \<noteq> []" by simp_all
  show ?thesis
    using eraseWatermark_string_image_source [OF img ne(1), of "example_env (Resolved JNull)" "''key''"]
      eraseWatermark_string_image_source [OF img ne(2), of "example_env (Resolved JNull)" "''key''"]
      eraseWatermark_string_image_source [OF img ne(3), of "example_env (Resolved JNull)" "''key''"]
      eraseWatermark_string_image_source [OF nul(1) ne(3), of "example_env (Resolved JNull)" "''key''"]
    by (auto simp: seg brush nul msg nul_path_invalid example_paths example_decoder
        image_options_form nul_brush_appended)
qed

text \<open>
  C3, as amended. When the request of eraseWatermark or saveLargeImage is rejected with an
  Axios error, the remote status, status text and response body (each undefined when no
  response arrived) are written to the diagnostic log; and unless the message field of the
  response body is an object with a \<open>toString\<close> property of its own, or an array holding
  one, the error thrown is a plain Error holding nothing but a message that starts with
  \<open>API Error: \<close>.
\<close>

theorem axios_error_logged_then_wrapped:
  assumes "axios_post e req = Rejected (AxiosError message response)"
  shows "(posts (eraseWatermark e apiKey eo) = [req] \<longrightarrow>
      logged (eraseWatermark e apiKey eo) =
        [ApiErrorDetails (map_option status response) (map_option statusText response)
           (response_data response)]
      \<and> ((\<forall>v. body_message response = Some v \<longrightarrow> has_text v) \<longrightarrow>
           (\<exists>described. outcome (eraseWatermark e apiKey eo) =
              Inl (JsError ''Error'' (''API Error: '' @ described)))))
    \<and> (posts (saveLargeImage e apiKey so) = [req] \<longrightarrow>
      logged (saveLargeImage e apiKey so) =
        [ApiErrorDetails (map_option status response) (map_option statusText response)
           (response_data response)]
      \<and> ((\<forall>v. body_message response = Some v \<longrightarrow> has_text v) \<longrightarrow>
           (\<exists>described. outcome (saveLargeImage e apiKey so) =
              Inl (JsError ''Error'' (''API Error: '' @ described)))))"
proof -
  have erase: "logged (eraseWatermark e apiKey eo) =
        [ApiErrorDetails (map_option status response) (map_option statusText response)
           (response_data response)]
      \<and> outcome (eraseWatermark e apiKey eo) =
          Inl (snd (catch_block (AxiosError message response)))"
    if "posts (eraseWatermark e apiKey eo) = [req]"
    using erase_rejected [OF assms that] by (simp add: catch_block_logged)
  have save: "logged (saveLargeImage e apiKey so) =
        [ApiErrorDetails (map_option status response) (map_option statusText response)
           (response_data response)]
      \<and> outcome (saveLargeImage e apiKey so) =
          Inl (snd (catch_block (AxiosError message response)))"
    if "posts (saveLargeImage e apiKey so) = [req]"
    using save_rejected [OF assms that] by (simp add: catch_block_logged)
  show ?thesis
    using erase save catch_block_has_text [of response message]
    by (intro conjI impI) auto
qed

theorem axios_error_logged_then_wrapped_witness:
  "logged (eraseWatermark (example_env (Rejected quota_exceeded)) ''key'' session_options) =
     [ApiErrorDetails (Some 402) (Some ''Payment Required'')
        (JObj [(''message'', JStr ''quota exceeded'')])]
   \<and> outcome (eraseWatermark (example_env (Rejected quota_exceeded)) ''key'' session_options) =
     Inl (JsError ''Error'' ''API Error: quota exceeded'')
   \<and> logged (saveLargeImage (example_env (Rejected network_error)) ''key'' preview_options) =
     [ApiErrorDetails None None JUndefined]
   \<and> outcome (saveLargeImage (example_env (Rejected network_error)) ''key'' preview_options) =
     Inl (JsError ''Error'' ''API Error: Network Error'')"
proof -
  have h1: "axios_post (example_env (Rejected quota_exceeded)) session_request =
      Rejected (AxiosError ''Request failed with status code 402''
        (Some (Response 402 ''Payment Required'' (JObj [(''message'', JStr ''quota exceeded'')]))))"
    by (simp add: example_post quota_exceeded_def)
  have h2: "axios_post (example_env (Rejected network_error)) preview_request =
      Rejected (AxiosError ''Network Error'' None)"
    by (simp add: example_post network_error_def)
  have o1: "outcome (eraseWatermark (example_env (Rejected quota_exceeded)) ''key'' session_options) =
     Inl (JsError ''Error'' ''API Error: quota exceeded'')"
    using erase_rejected [OF h1 session_options_posts]
    by (simp add: remote_message_def js_or_def)
  have o2: "outcome (saveLargeImage (example_env (Rejected network_error)) ''key'' preview_options) =
     Inl (JsError ''Error'' ''API Error: Network Error'')"
    using save_rejected [OF h2 preview_options_posts]
    by (simp add: remote_message_def js_or_def)
  show ?thesis
    using axios_error_logged_then_wrapped [OF h1, of "''key''" session_options preview_options]
      axios_error_logged_then_wrapped [OF h2, of "''key''" session_options preview_options]
      o1 o2
    by (simp add: session_options_posts preview_options_posts)
qed

text \<open>
  C3 as stated fails: replies that differ in status, status text and body surface as one
  and the same error, which therefore carries none of the three.
\<close>

theorem uniform_error_without_status_counterexample:
  "outcome (eraseWatermark (example_env (Rejected quota_exceeded)) ''key'' session_options) =
     Inl (JsError ''Error'' ''API Error: quota exceeded'')
   \<and> outcome (eraseWatermark (example_env (Rejected too_many_requests)) ''key'' session_options) =
     Inl (JsError ''Error'' ''API Error: quota exceeded'')
   \<and> outcome (saveLargeImage (example_env (Rejected quota_exceeded)) ''key'' preview_options) =
     Inl (JsError ''Error'' ''API Error: quota exceeded'')
   \<and> outcome (saveLargeImage (example_env (Rejected too_many_requests)) ''key'' preview_options) =
     Inl (JsError ''Error'' ''API Error: quota exceeded'')"
  by (simp add: eraseWatermark_built [OF session_options_form] saveLargeImage_def
      try_post_rejected [OF example_post] quota_exceeded_def too_many_requests_def
      remote_message_def js_or_def)

text \<open>
  C4. When the request of eraseWatermark resolves with
  \<open>{ session_id: s, edited_image: { image: a, mask: b, watermark_mask: c } }\<close>, the result
  is \<open>{ sessionId: s, imageBase64: a, maskBase: b, watermarkMask: c }\<close>, the values
  untouched.
\<close>

theorem eraseWatermark_success_mapping:
  assumes "posts (eraseWatermark e apiKey options) = [req]"
    and "axios_post e req =
      Resolved (JObj [(''session_id'', s),
        (''edited_image'', JObj [(''image'', a), (''mask'', b), (''watermark_mask'', c)])])"
  shows "outcome (eraseWatermark e apiKey options) =
    Inr \<lparr>res_sessionId = s, imageBase64 = a, res_maskBase = b, watermarkMask = c\<rparr>"
  using try_post_resolved [where f = erase_result, OF assms(2) erase_result_shape] eraseWatermark_sent [OF assms(1)]
  by simp

theorem eraseWatermark_success_mapping_witness:
  "outcome (eraseWatermark (example_env (Resolved erase_success)) ''key'' session_options) =
     Inr \<lparr>res_sessionId = JStr ''abc'', imageBase64 = JStr ''A'', res_maskBase = JStr ''B'',
          watermarkMask = JStr ''C''\<rparr>"
proof -
  have h1: "posts (eraseWatermark (example_env (Resolved erase_success)) ''key'' session_options) =
      [session_request]"
    by (rule session_options_posts)
  have h2: "axios_post (example_env (Resolved erase_success)) session_request =
      Resolved (JObj [(''session_id'', JStr ''abc''),
        (''edited_image'',
         JObj [(''image'', JStr ''A''), (''mask'', JStr ''B''), (''watermark_mask'', JStr ''C'')])])"
    by (simp add: example_post erase_success_def)
  show ?thesis by (rule eraseWatermark_success_mapping [OF h1 h2])
qed

text \<open>
  C5. Every form that eraseWatermark or saveLargeImage builds has exactly one
  \<open>remove_text\<close> field, a text field: \<open>true\<close> when removeText is unset or true,
  \<open>false\<close> when it is false.
\<close>

theorem remove_text_field_always_serialized:
  "(eraseWatermark_formData e eo = Inr formData \<longrightarrow>
      filter (\<lambda>p. part_name p = ''remove_text'') formData =
        [Field ''remove_text''
           (case removeText eo of None \<Rightarrow> ''true'' | Some True \<Rightarrow> ''true'' | Some False \<Rightarrow> ''false'')])
   \<and> filter (\<lambda>p. part_name p = ''remove_text'') (saveLargeImage_formData e so) =
        [Field ''remove_text''
           (case save_removeText so of None \<Rightarrow> ''true'' | Some True \<Rightarrow> ''true'' | Some False \<Rightarrow> ''false'')]"
proof -
  have ser: "removeText_field x = (case x of None \<Rightarrow> ''true'' | Some True \<Rightarrow> ''true'' | Some False \<Rightarrow> ''false'')" for x
    by (cases x) auto
  have erase: "filter (\<lambda>p. part_name p = ''remove_text'') formData =
        [Field ''remove_text'' (removeText_field (removeText eo))]"
    if "eraseWatermark_formData e eo = Inr formData"
    using erase_form_built [OF that] by (auto split: option.splits)
  have save: "filter (\<lambda>p. part_name p = ''remove_text'') (saveLargeImage_formData e so) =
        [Field ''remove_text'' (removeText_field (save_removeText so))]"
    by (simp add: saveLargeImage_formData_def part_name_image_part split: option.splits)
  show ?thesis using erase save by (simp add: ser)
qed

theorem remove_text_field_always_serialized_witness:
  "eraseWatermark_formData (example_env (Resolved JNull)) session_options =
     Inr [Field ''session_id'' ''abc'', Field ''remove_text'' ''true'']
   \<and> filter (\<lambda>p. part_name p = ''remove_text'')
        [Field ''session_id'' ''abc'', Field ''remove_text'' ''true''] =
      [Field ''remove_text'' ''true'']
   \<and> filter (\<lambda>p. part_name p = ''remove_text'')
        (saveLargeImage_formData (example_env (Resolved JNull))
           (preview_options\<lparr>save_removeText := Some False\<rparr>)) =
      [Field ''remove_text'' ''false'']"
  using remove_text_field_always_serialized
    [of "example_env (Resolved JNull)" session_options
        "[Field ''session_id'' ''abc'', Field ''remove_text'' ''true'']"
        "preview_options\<lparr>save_removeText := Some False\<rparr>"]
    session_options_form [of "Resolved JNull"]
  by (simp add: session_options_def)

text \<open>
  C6, as amended. When the request of eraseWatermark or saveLargeImage is rejected with an
  Axios error, the message of the error thrown is \<open>API Error: \<close> followed by the
  \<open>message\<close> field of the response body when that field is a non-empty string, which the
  message therefore contains; by the text of that field when the field is some other value
  that is true in a condition and has a text; and by the message of the Axios error when
  there is no response, the body has no \<open>message\<close> field, or the field is false in a
  condition (the empty string, null, false, 0).
\<close>

theorem axios_error_message_from_body:
  assumes "axios_post e req = Rejected (AxiosError message response)"
  shows "(posts (eraseWatermark e apiKey eo) = [req] \<longrightarrow>
      (\<forall>code reason kvs m.
          response = Some (Response code reason (JObj kvs))
          \<and> map_of kvs ''message'' = Some (JStr m) \<and> m \<noteq> [] \<longrightarrow>
          outcome (eraseWatermark e apiKey eo) = Inl (JsError ''Error'' (''API Error: '' @ m))
          \<and> sublist m (''API Error: '' @ m))
      \<and> (\<forall>v described.
          body_message response = Some v \<and> truthy v \<and> js_toString v = Inr described \<longrightarrow>
          outcome (eraseWatermark e apiKey eo) =
            Inl (JsError ''Error'' (''API Error: '' @ described)))
      \<and> (body_message response = None
           \<or> (\<exists>v. body_message response = Some v \<and> \<not> truthy v) \<longrightarrow>
          outcome (eraseWatermark e apiKey eo) =
            Inl (JsError ''Error'' (''API Error: '' @ message))))
    \<and> (posts (saveLargeImage e apiKey so) = [req] \<longrightarrow>
      (\<forall>code reason kvs m.
          response = Some (Response code reason (JObj kvs))
          \<and> map_of kvs ''message'' = Some (JStr m) \<and> m \<noteq> [] \<longrightarrow>
          outcome (saveLargeImage e apiKey so) = Inl (JsError ''Error'' (''API Error: '' @ m))
          \<and> sublist m (''API Error: '' @ m))
      \<and> (\<forall>v described.
          body_message response = Some v \<and> truthy v \<and> js_toString v = Inr described \<longrightarrow>
          outcome (saveLargeImage e apiKey so) =
            Inl (JsError ''Error'' (''API Error: '' @ described)))
      \<and> (body_message response = None
           \<or> (\<exists>v. body_message response = Some v \<and> \<not> truthy v) \<longrightarrow>
          outcome (saveLargeImage e apiKey so) =
            Inl (JsError ''Error'' (''API Error: '' @ message))))"
proof -
  let ?thrown = "snd (catch_block (AxiosError message response))"
  have str: "?thrown = JsError ''Error'' (''API Error: '' @ m) \<and> sublist m (''API Error: '' @ m)"
    if "response = Some (Response code reason (JObj kvs))
      \<and> map_of kvs ''message'' = Some (JStr m) \<and> m \<noteq> []" for code reason kvs m
  proof -
    from that have "body_message response = Some (JStr m)" "truthy (JStr m)"
      "js_toString (JStr m) = Inr m"
      by simp_all
    then have "?thrown = JsError ''Error'' (''API Error: '' @ m)" by (rule catch_block_truthy)
    moreover have "sublist m (''API Error: '' @ m @ [])" by (rule sublist_appendI)
    ultimately show ?thesis by simp
  qed
  have conv: "?thrown = JsError ''Error'' (''API Error: '' @ described)"
    if "body_message response = Some v \<and> truthy v \<and> js_toString v = Inr described"
    for v described
    using that catch_block_truthy by blast
  have fallback: "?thrown = JsError ''Error'' (''API Error: '' @ message)"
    if "body_message response = None \<or> (\<exists>v. body_message response = Some v \<and> \<not> truthy v)"
    using that by (rule catch_block_fallback)
  have erase: "outcome (eraseWatermark e apiKey eo) = Inl ?thrown"
    if "posts (eraseWatermark e apiKey eo) = [req]"
    using erase_rejected [OF assms that] by simp
  have save: "outcome (saveLargeImage e apiKey so) = Inl ?thrown"
    if "posts (saveLargeImage e apiKey so) = [req]"
    using save_rejected [OF assms that] by simp
  show ?thesis
  proof (intro conjI impI allI)
    fix code reason kvs m
    assume p: "posts (eraseWatermark e apiKey eo) = [req]"
      and b: "response = Some (Response code reason (JObj kvs))
        \<and> map_of kvs ''message'' = Some (JStr m) \<and> m \<noteq> []"
    show "outcome (eraseWatermark e apiKey eo) = Inl (JsError ''Error'' (''API Error: '' @ m))"
      using erase [OF p] str [OF b] by simp
    show "sublist m (''API Error: '' @ m)" using str [OF b] by simp
  next
    fix v described
    assume p: "posts (eraseWatermark e apiKey eo) = [req]"
      and b: "body_message response = Some v \<and> truthy v \<and> js_toString v = Inr described"
    show "outcome (eraseWatermark e apiKey eo) =
        Inl (JsError ''Error'' (''API Error: '' @ described))"
      using erase [OF p] conv [OF b] by simp
  next
    assume p: "posts (eraseWatermark e apiKey eo) = [req]"
      and b: "body_message response = None
        \<or> (\<exists>v. body_message response = Some v \<and> \<not> truthy v)"
    show "outcome (eraseWatermark e apiKey eo) = Inl (JsError ''Error'' (''API Error: '' @ message))"
      using erase [OF p] fallback [OF b] by simp
  next
    fix code reason kvs m
    assume p: "posts (saveLargeImage e apiKey so) = [req]"
      and b: "response = Some (Response code reason (JObj kvs))
        \<and> map_of kvs ''message'' = Some (JStr m) \<and> m \<noteq> []"
    show "outcome (saveLargeImage e apiKey so) = Inl (JsError ''Error'' (''API Error: '' @ m))"
      using save [OF p] str [OF b] by simp
    show "sublist m (''API Error: '' @ m)" using str [OF b] by simp
  next
    fix v described
    assume p: "posts (saveLargeImage e apiKey so) = [req]"
      and b: "body_message response = Some v \<and> truthy v \<and> js_toString v = Inr described"
    show "outcome (saveLargeImage e apiKey so) =
        Inl (JsError ''Error'' (''API Error: '' @ described))"
      using save [OF p] conv [OF b] by simp
  next
    assume p: "posts (saveLargeImage e apiKey so) = [req]"
      and b: "body_message response = None
        \<or> (\<exists>v. body_message response = Some v \<and> \<not> truthy v)"
    show "outcome (saveLargeImage e apiKey so) = Inl (JsError ''Error'' (''API Error: '' @ message))"
      using save [OF p] fallback [OF b] by simp
  qed
qed

theorem axios_error_message_from_body_witness:
  "outcome (eraseWatermark (example_env (Rejected quota_exceeded)) ''key'' session_options) =
     Inl (JsError ''Error'' ''API Error: quota exceeded'')
   \<and> sublist ''quota exceeded'' ''API Error: quota exceeded''
   \<and> outcome (saveLargeImage
        (example_env (Rejected (bad_request (JObj [(''message'', JStr ''unknown session'')]))))
        ''key'' preview_options) =
     Inl (JsError ''Error'' ''API Error: unknown session'')
   \<and> outcome (eraseWatermark
        (example_env (Rejected (bad_request (JObj [(''message'', JNum True ''429'')]))))
        ''key'' session_options) =
     Inl (JsError ''Error'' ''API Error: 429'')
   \<and> outcome (eraseWatermark
        (example_env (Rejected (bad_request
           (JObj [(''message'', JArr [JStr ''a'', JNull, JBool True, JObj []])]))))
        ''key'' session_options) =
     Inl (JsError ''Error'' ''API Error: a,,true,[object Object]'')
   \<and> outcome (saveLargeImage (example_env (Rejected network_error)) ''key'' preview_options) =
     Inl (JsError ''Error'' ''API Error: Network Error'')
   \<and> outcome (saveLargeImage (example_env (Rejected (bad_request (JStr ''Bad Gateway''))))
        ''key'' preview_options) =
     Inl (JsError ''Error'' ''API Error: Request failed with status code 400'')
   \<and> outcome (eraseWatermark
        (example_env (Rejected (bad_request (JObj [(''message'', JStr [])]))))
        ''key'' session_options) =
     Inl (JsError ''Error'' ''API Error: Request failed with status code 400'')"
proof -
  note at = axios_error_message_from_body
    [where apiKey = "''key''" and eo = session_options and so = preview_options]
  have quota: "outcome (eraseWatermark (example_env (Rejected quota_exceeded)) ''key''
        session_options) = Inl (JsError ''Error'' ''API Error: quota exceeded'')
      \<and> sublist ''quota exceeded'' ''API Error: quota exceeded''"
    using at [OF example_post [of "Rejected (AxiosError ''Request failed with status code 402''
        (Some (Response 402 ''Payment Required'' (JObj [(''message'', JStr ''quota exceeded'')]))))" session_request]]
    by (simp add: session_options_posts quota_exceeded_def [symmetric])
  have session: "outcome (saveLargeImage
        (example_env (Rejected (bad_request (JObj [(''message'', JStr ''unknown session'')]))))
        ''key'' preview_options) = Inl (JsError ''Error'' ''API Error: unknown session'')"
    using at [OF example_post [of "Rejected (AxiosError ''Request failed with status code 400''
        (Some (Response 400 ''Bad Request'' (JObj [(''message'', JStr ''unknown session'')]))))" preview_request]]
    by (simp add: preview_options_posts bad_request_def)
  have number: "outcome (eraseWatermark
        (example_env (Rejected (bad_request (JObj [(''message'', JNum True ''429'')]))))
        ''key'' session_options) = Inl (JsError ''Error'' ''API Error: 429'')"
    using at [OF example_post [of "Rejected (AxiosError ''Request failed with status code 400''
        (Some (Response 400 ''Bad Request'' (JObj [(''message'', JNum True ''429'')]))))" session_request]]
    by (simp add: session_options_posts bad_request_def)
  have array: "outcome (eraseWatermark
        (example_env (Rejected (bad_request
           (JObj [(''message'', JArr [JStr ''a'', JNull, JBool True, JObj []])]))))
        ''key'' session_options) =
      Inl (JsError ''Error'' ''API Error: a,,true,[object Object]'')"
    using at [OF example_post [of "Rejected (AxiosError ''Request failed with status code 400''
        (Some (Response 400 ''Bad Request''
           (JObj [(''message'', JArr [JStr ''a'', JNull, JBool True, JObj []])]))))" session_request]]
    by (simp add: session_options_posts bad_request_def)
  have network: "outcome (saveLargeImage (example_env (Rejected network_error)) ''key''
        preview_options) = Inl (JsError ''Error'' ''API Error: Network Error'')"
    using at [OF example_post [of "Rejected (AxiosError ''Network Error''
        (None))" preview_request]]
    by (simp add: preview_options_posts network_error_def)
  have gateway: "outcome (saveLargeImage
        (example_env (Rejected (bad_request (JStr ''Bad Gateway'')))) ''key'' preview_options) =
      Inl (JsError ''Error'' ''API Error: Request failed with status code 400'')"
    using at [OF example_post [of "Rejected (AxiosError ''Request failed with status code 400''
        (Some (Response 400 ''Bad Request'' (JStr ''Bad Gateway''))))" preview_request]]
    by (simp add: preview_options_posts bad_request_def)
  have empty: "outcome (eraseWatermark
        (example_env (Rejected (bad_request (JObj [(''message'', JStr [])]))))
        ''key'' session_options) =
      Inl (JsError ''Error'' ''API Error: Request failed with status code 400'')"
    using at [OF example_post [of "Rejected (AxiosError ''Request failed with status code 400''
        (Some (Response 400 ''Bad Request'' (JObj [(''message'', JStr [])]))))" session_request]]
    by (simp add: session_options_posts bad_request_def)
  show ?thesis using quota session number array network gateway empty by simp
qed

text \<open>
  C6 as stated fails for a message field that is present but is not a non-empty string: an
  object with a \<open>toString\<close> property of its own makes the template literal throw a
  TypeError, and the field \<open>false\<close> gives the transport description, which does not
  contain it.
\<close>

theorem message_field_not_in_error_counterexample:
  "outcome (eraseWatermark
      (example_env (Rejected (AxiosError ''Request failed with status code 400''
         (Some (Response 400 ''Bad Request''
            (JObj [(''message'', JObj [(''toString'', JStr ''x'')])]))))))
      ''key'' session_options) =
     Inl (JsError ''TypeError'' ''Cannot convert object to primitive value'')
   \<and> outcome (saveLargeImage
      (example_env (Rejected (AxiosError ''Request failed with status code 400''
         (Some (Response 400 ''Bad Request'' (JObj [(''message'', JBool False)]))))))
      ''key'' preview_options) =
     Inl (JsError ''Error'' ''API Error: Request failed with status code 400'')
   \<and> \<not> sublist ''false'' ''API Error: Request failed with status code 400''"
proof -
  have a: "outcome (eraseWatermark
      (example_env (Rejected (AxiosError ''Request failed with status code 400''
         (Some (Response 400 ''Bad Request''
            (JObj [(''message'', JObj [(''toString'', JStr ''x'')])]))))))
      ''key'' session_options) =
     Inl (JsError ''TypeError'' ''Cannot convert object to primitive value'')"
    using erase_rejected [OF example_post session_options_posts]
    by (simp add: remote_message_def js_or_def)
  have b: "outcome (saveLargeImage
      (example_env (Rejected (AxiosError ''Request failed with status code 400''
         (Some (Response 400 ''Bad Request'' (JObj [(''message'', JBool False)]))))))
      ''key'' preview_options) =
     Inl (JsError ''Error'' ''API Error: Request failed with status code 400'')"
    using save_rejected [OF example_post preview_options_posts]
    by (simp add: remote_message_def js_or_def)
  have c: "\<not> sublist ''false'' ''API Error: Request failed with status code 400''"
    by (simp add: sublist_Cons_right prefix_Cons)
  show ?thesis using a b c by simp
qed

text \<open>
  C7. saveLargeImage with only sessionId and previewImageToSave set (both non-empty) sends
  one request whose body is the decoded preview image, the session identifier and
  \<open>remove_text = true\<close>, nothing else; when the reply is
  \<open>{ large_image_to_save: x }\<close> the result is \<open>{ largeImageToSave: x }\<close>.
\<close>

theorem saveLargeImage_session_and_preview_only:
  assumes "options = \<lparr>originalLargeImage = None, previewImageToSave = Some p,
      previewMaskToSave = None, save_sessionId = Some sid, save_removeText = None\<rparr>"
    and "p \<noteq> []" and "sid \<noteq> []"
  shows "posts (saveLargeImage e apiKey options) =
      [\<lparr>url = saveLargeImageUrl, headers = request_headers e apiKey,
        body = [FilePart ''preview_image_to_save'' (BufferData (Buffer_from_base64 e p))
                  ''preview_image_to_save.jpeg'',
                Field ''session_id'' sid,
                Field ''remove_text'' ''true'']\<rparr>]
    \<and> (\<forall>req x. posts (saveLargeImage e apiKey options) = [req]
          \<and> axios_post e req = Resolved (JObj [(''large_image_to_save'', x)]) \<longrightarrow>
          outcome (saveLargeImage e apiKey options) = Inr \<lparr>largeImageToSave = x\<rparr>)"
proof -
  have sr: "save_result (JObj [(''large_image_to_save'', x)]) = Inr \<lparr>largeImageToSave = x\<rparr>" for x
    by (simp add: save_result_def)
  have a: "posts (saveLargeImage e apiKey options) =
      [\<lparr>url = saveLargeImageUrl, headers = request_headers e apiKey,
        body = [FilePart ''preview_image_to_save'' (BufferData (Buffer_from_base64 e p))
                  ''preview_image_to_save.jpeg'',
                Field ''session_id'' sid,
                Field ''remove_text'' ''true'']\<rparr>]"
    using assms by (simp add: saveLargeImage_def saveLargeImage_formData_def posts_try_post)
  have b: "outcome (saveLargeImage e apiKey options) = Inr \<lparr>largeImageToSave = x\<rparr>"
    if "posts (saveLargeImage e apiKey options) = [req]"
      and "axios_post e req = Resolved (JObj [(''large_image_to_save'', x)])" for req x
    using try_post_resolved [where f = save_result, OF that(2) sr] saveLargeImage_sent [OF that(1)] by simp
  show ?thesis using a b by blast
qed

theorem saveLargeImage_session_and_preview_only_witness:
  "posts (saveLargeImage (example_env (Resolved (JObj [(''large_image_to_save'', JStr ''X'')])))
      ''key'' preview_options) = [preview_request]
   \<and> outcome (saveLargeImage (example_env (Resolved (JObj [(''large_image_to_save'', JStr ''X'')])))
      ''key'' preview_options) = Inr \<lparr>largeImageToSave = JStr ''X''\<rparr>"
proof -
  have h1: "preview_options = \<lparr>originalLargeImage = None, previewImageToSave = Some ''aGk='',
      previewMaskToSave = None, save_sessionId = Some ''abc'', save_removeText = None\<rparr>"
    by (simp add: preview_options_def)
  have h2: "''aGk='' \<noteq> []" and h3: "''abc'' \<noteq> []" by simp_all
  show ?thesis
    using saveLargeImage_session_and_preview_only [OF h1 h2 h3,
        of "example_env (Resolved (JObj [(''large_image_to_save'', JStr ''X'')]))" "''key''"]
    by (simp add: preview_options_posts example_post)
qed

text \<open>
  C8, as amended. In every form that eraseWatermark builds, a supplied maskBase is the one
  \<open>mask_base\<close> part, its base64 decoding under \<open>mask_base.jpeg\<close>, whether or not the
  string is an existing path; a supplied maskBrush is the one \<open>mask_brush\<close> part, a stream
  of that path, whether or not it exists, under the final segment of the path, or under
  \<open>mask_brush.png\<close> when that segment is empty.
\<close>

theorem mask_base_decoded_mask_brush_streamed:
  assumes "eraseWatermark_formData e options = Inr formData"
  shows "(\<forall>m. maskBase options = Some m \<and> m \<noteq> [] \<longrightarrow>
      filter (\<lambda>p. part_name p = ''mask_base'') formData =
        [FilePart ''mask_base'' (BufferData (Buffer_from_base64 e m)) ''mask_base.jpeg''])
    \<and> (\<forall>b. maskBrush options = Some b \<and> b \<noteq> [] \<longrightarrow>
      filter (\<lambda>p. part_name p = ''mask_brush'') formData =
        [FilePart ''mask_brush'' (ReadStream b)
           (if final_path_segment b = [] then ''mask_brush.png'' else final_path_segment b)])"
  using erase_form_built [OF assms]
  by (auto simp: filename_of_path truthy_string_Some truthy_string_None split: option.splits)

theorem mask_base_decoded_mask_brush_streamed_witness:
  "existsSync (example_env (Resolved JNull)) ''aGk=''
   \<and> filter (\<lambda>p. part_name p = ''mask_base'')
       [FilePart ''original_preview_image'' (BufferData (b64decode ''aGVsbG8='')) ''image.png'',
        FilePart ''mask_base'' (BufferData (b64decode ''aGk='')) ''mask_base.jpeg'',
        FilePart ''mask_brush'' (ReadStream ''masks/brush.png'') ''brush.png'',
        Field ''remove_text'' ''false''] =
     [FilePart ''mask_base'' (BufferData (b64decode ''aGk='')) ''mask_base.jpeg'']
   \<and> filter (\<lambda>p. part_name p = ''mask_brush'')
       [FilePart ''original_preview_image'' (BufferData (b64decode ''aGVsbG8='')) ''image.png'',
        FilePart ''mask_base'' (BufferData (b64decode ''aGk='')) ''mask_base.jpeg'',
        FilePart ''mask_brush'' (ReadStream ''masks/brush.png'') ''brush.png'',
        Field ''remove_text'' ''false''] =
     [FilePart ''mask_brush'' (ReadStream ''masks/brush.png'') ''brush.png'']"
proof -
  have seg: "final_path_segment ''masks/brush.png'' = ''brush.png''"
    by (simp add: final_path_segment_def)
  have env: "existsSync (example_env (Resolved JNull)) ''aGk=''"
    "Buffer_from_base64 (example_env (Resolved JNull)) = b64decode"
    by (simp_all add: example_paths example_decoder)
  show ?thesis
    using mask_base_decoded_mask_brush_streamed [OF masked_options_form [of "Resolved JNull"]]
    by (simp add: masked_options_def seg env)
qed

text \<open>
  C8 as stated fails for a mask brush path that ends in a slash: its final segment is
  empty, and the filename is \<open>mask_brush.png\<close>.
\<close>

theorem mask_brush_filename_counterexample:
  "eraseWatermark_formData (example_env (Resolved JNull))
     \<lparr>originalPreviewImage = None, maskBase = None, maskBrush = Some ''masks/'',
      sessionId = Some ''abc'', removeText = None\<rparr> =
     Inr [Field ''session_id'' ''abc'',
          FilePart ''mask_brush'' (ReadStream ''masks/'') ''mask_brush.png'',
          Field ''remove_text'' ''true'']
   \<and> js_pop (js_split CHR ''/'' ''masks/'') = Some []
   \<and> final_path_segment ''masks/'' = []"
  by (simp add: eraseWatermark_formData_def eraseWatermark_appended_def append_masks_def
      createReadStream_def valid_path_def or_default_def js_pop_def final_path_segment_def)

text \<open>
  C9. A failure that is not an Axios error reaches the caller as it was thrown, from
  wherever it comes: the building of the form, the rejected request, or the reading of
  the reply.
\<close>

theorem non_axios_failure_propagates_unchanged:
  assumes "\<not> isAxiosError err"
  shows "(eraseWatermark_formData e eo = Inl err \<longrightarrow>
            outcome (eraseWatermark e apiKey eo) = Inl err)
    \<and> (posts (eraseWatermark e apiKey eo) = [req] \<and> axios_post e req = Rejected err \<longrightarrow>
            outcome (eraseWatermark e apiKey eo) = Inl err)
    \<and> (posts (eraseWatermark e apiKey eo) = [req] \<and> axios_post e req = Resolved d
          \<and> erase_result d = Inl err \<longrightarrow>
            outcome (eraseWatermark e apiKey eo) = Inl err)
    \<and> (posts (saveLargeImage e apiKey so) = [req'] \<and> axios_post e req' = Rejected err \<longrightarrow>
            outcome (saveLargeImage e apiKey so) = Inl err)
    \<and> (posts (saveLargeImage e apiKey so) = [req'] \<and> axios_post e req' = Resolved d'
          \<and> save_result d' = Inl err \<longrightarrow>
            outcome (saveLargeImage e apiKey so) = Inl err)"
proof -
  have c: "catch_block err = ([], err)" using assms by (rule catch_block_not_axios)
  have 1: "eraseWatermark_formData e eo = Inl err \<longrightarrow>
            outcome (eraseWatermark e apiKey eo) = Inl err"
    by (simp add: eraseWatermark_def)
  have 2: "posts (eraseWatermark e apiKey eo) = [req] \<and> axios_post e req = Rejected err \<longrightarrow>
            outcome (eraseWatermark e apiKey eo) = Inl err"
    using c by (auto dest!: eraseWatermark_sent simp: try_post_rejected)
  have 3: "posts (eraseWatermark e apiKey eo) = [req] \<and> axios_post e req = Resolved d
          \<and> erase_result d = Inl err \<longrightarrow>
            outcome (eraseWatermark e apiKey eo) = Inl err"
    using c by (auto dest!: eraseWatermark_sent simp: try_post_result_error)
  have 4: "posts (saveLargeImage e apiKey so) = [req'] \<and> axios_post e req' = Rejected err \<longrightarrow>
            outcome (saveLargeImage e apiKey so) = Inl err"
    using c by (auto dest!: saveLargeImage_sent simp: try_post_rejected)
  have 5: "posts (saveLargeImage e apiKey so) = [req'] \<and> axios_post e req' = Resolved d'
          \<and> save_result d' = Inl err \<longrightarrow>
            outcome (saveLargeImage e apiKey so) = Inl err"
    using c by (auto dest!: saveLargeImage_sent simp: try_post_result_error)
  show ?thesis using 1 2 3 4 5 by blast
qed

theorem non_axios_failure_propagates_unchanged_witness:
  "outcome (eraseWatermark (example_env (Resolved erase_success)) ''key''
      (session_options\<lparr>sessionId := None\<rparr>)) =
     Inl (JsError ''Error'' ''Either originalPreviewImage or sessionId must be provided'')
   \<and> outcome (eraseWatermark (example_env (Rejected (JsError ''Error'' ''socket hang up''))) ''key''
      session_options) = Inl (JsError ''Error'' ''socket hang up'')
   \<and> outcome (saveLargeImage (example_env (Rejected (JsError ''Error'' ''socket hang up''))) ''key''
      preview_options) = Inl (JsError ''Error'' ''socket hang up'')
   \<and> outcome (saveLargeImage (example_env (Resolved JNull)) ''key'' preview_options) =
     Inl (JsError ''TypeError''
       (''Cannot read properties of null (reading '' @ [CHR 0x27] @ ''large_image_to_save''
          @ [CHR 0x27] @ '')''))"
proof -
  have h1: "\<not> isAxiosError
      (JsError ''Error'' ''Either originalPreviewImage or sessionId must be provided'')"
    and h2: "\<not> isAxiosError (JsError ''Error'' ''socket hang up'')"
    and h3: "\<not> isAxiosError (JsError ''TypeError''
       (''Cannot read properties of null (reading '' @ [CHR 0x27] @ ''large_image_to_save''
          @ [CHR 0x27] @ '')''))"
    by simp_all
  have config: "eraseWatermark_formData (example_env (Resolved erase_success))
      (session_options\<lparr>sessionId := None\<rparr>) =
      Inl (JsError ''Error'' ''Either originalPreviewImage or sessionId must be provided'')"
    by (simp add: eraseWatermark_formData_def eraseWatermark_appended_def session_options_def)
  have reading: "save_result JNull = Inl (JsError ''TypeError''
       (''Cannot read properties of null (reading '' @ [CHR 0x27] @ ''large_image_to_save''
          @ [CHR 0x27] @ '')''))"
    by (simp add: save_result_def)
  show ?thesis
    using non_axios_failure_propagates_unchanged [OF h1,
        of "example_env (Resolved erase_success)" "session_options\<lparr>sessionId := None\<rparr>"
           "''key''"]
      non_axios_failure_propagates_unchanged [OF h2,
        of "example_env (Rejected (JsError ''Error'' ''socket hang up''))" session_options
           "''key''" session_request _ preview_options preview_request]
      non_axios_failure_propagates_unchanged [OF h3,
        of "example_env (Resolved JNull)" session_options
           "''key''" session_request _ preview_options preview_request JNull]
    using config reading
    by (simp add: session_options_posts preview_options_posts example_post)
qed

text \<open>
  C10. When eraseWatermark is given both an image source (a Buffer or a non-empty string)
  and a session identifier, the form starts with the \<open>original_preview_image\<close> part and
  gets no \<open>session_id\<close> field, and the configuration error is not thrown. That form is
  the body of the request sent, unless the mask brush path holds a NUL character and
  \<open>fs.createReadStream\<close> throws at line 80.
\<close>

theorem image_source_precedes_session_id:
  assumes "originalPreviewImage options = Some img" and "img \<noteq> StringInput []"
    and "sessionId options = Some sid"
  shows "\<exists>rest.
    fst (eraseWatermark_appended e options) =
      image_part e ''original_preview_image'' img # rest
    \<and> part_name (image_part e ''original_preview_image'' img) = ''original_preview_image''
    \<and> filter (\<lambda>p. part_name p = ''session_id'')
        (image_part e ''original_preview_image'' img # rest) = []
    \<and> eraseWatermark_formData e options \<noteq>
        Inl (JsError ''Error'' ''Either originalPreviewImage or sessionId must be provided'')
    \<and> ((\<forall>b. maskBrush options = Some b \<longrightarrow> CHR 0x00 \<notin> set b) \<longrightarrow>
          map body (posts (eraseWatermark e apiKey options)) =
            [image_part e ''original_preview_image'' img # rest])"
proof -
  let ?part = "image_part e ''original_preview_image'' img"
  have t: "truthy_image (Some img) = Some img" using assms(2) by (cases img) auto
  then have appended: "eraseWatermark_appended e options = append_masks e options [?part]"
    using assms(1) by (simp add: eraseWatermark_appended_def)
  define rest where "rest = tl (fst (eraseWatermark_appended e options))"
  have rest: "fst (eraseWatermark_appended e options) = ?part # rest"
    using append_masks_extends [of e options "[?part]"] appended by (auto simp: rest_def)
  have no_session: "filter (\<lambda>p. part_name p = ''session_id'') (?part # rest) = []"
  proof (cases "snd (append_masks e options [?part])")
    case None
    show ?thesis
      using append_masks_built [OF None] rest appended
      by (auto simp: part_name_image_part split: option.splits)
  next
    case (Some err)
    then have "fst (append_masks e options [?part]) =
        [?part] @ (case truthy_string (maskBase options) of
           Some m \<Rightarrow> [FilePart ''mask_base'' (BufferData (Buffer_from_base64 e m)) ''mask_base.jpeg'']
         | None \<Rightarrow> [])"
      by (auto simp: append_masks_def Let_def split: option.splits sum.splits)
    then show ?thesis using rest appended
      by (auto simp: part_name_image_part split: option.splits)
  qed
  have not_config: "eraseWatermark_formData e options \<noteq>
      Inl (JsError ''Error'' ''Either originalPreviewImage or sessionId must be provided'')"
  proof (cases "snd (append_masks e options [?part])")
    case None
    then show ?thesis using appended by (simp add: eraseWatermark_formData_def)
  next
    case (Some err)
    then obtain b where "err = JsError ''TypeError'' (invalid_path_message e b)"
      using append_masks_error by blast
    then show ?thesis using Some appended by (simp add: eraseWatermark_formData_def)
  qed
  have sent: "map body (posts (eraseWatermark e apiKey options)) = [?part # rest]"
    if "\<forall>b. maskBrush options = Some b \<longrightarrow> CHR 0x00 \<notin> set b"
  proof -
    have "snd (eraseWatermark_appended e options) = None"
      using that appended append_masks_valid_brush [of options e "[?part]"]
      by (simp add: valid_path_def)
    then have form: "eraseWatermark_formData e options = Inr (?part # rest)"
      using rest by (simp add: eraseWatermark_formData_def)
    show ?thesis by (simp add: eraseWatermark_built [OF form] posts_try_post)
  qed
  show ?thesis
    using rest no_session not_config sent
    by (intro exI [of _ rest] conjI impI) (simp_all add: part_name_image_part)
qed

theorem image_source_precedes_session_id_witness:
  "map body (posts (eraseWatermark (example_env (Resolved JNull)) ''key'' masked_options)) =
     [[FilePart ''original_preview_image'' (BufferData (b64decode ''aGVsbG8='')) ''image.png'',
       FilePart ''mask_base'' (BufferData (b64decode ''aGk='')) ''mask_base.jpeg'',
       FilePart ''mask_brush'' (ReadStream ''masks/brush.png'') ''brush.png'',
       Field ''remove_text'' ''false'']]
   \<and> fst (eraseWatermark_appended (example_env (Resolved JNull)) nul_brush_options) =
     [FilePart ''original_preview_image'' (BufferData (b64decode ''aGVsbG8='')) ''image.png'',
      FilePart ''mask_base'' (BufferData (b64decode ''aGk='')) ''mask_base.jpeg'']
   \<and> eraseWatermark_formData (example_env (Resolved JNull)) nul_brush_options =
     Inl (JsError ''TypeError''
       ''The argument path must be a string, Uint8Array, or URL without null bytes.'')"
proof -
  have h1: "originalPreviewImage masked_options = Some (StringInput ''aGVsbG8='')"
    and h3: "sessionId masked_options = Some ''abc''"
    and brush: "maskBrush masked_options = Some ''masks/brush.png''"
    by (simp_all add: masked_options_def)
  have n1: "originalPreviewImage nul_brush_options = Some (StringInput ''aGVsbG8='')"
    and n3: "sessionId nul_brush_options = Some ''abc''"
    by (simp_all add: nul_brush_options_def)
  have h2: "StringInput ''aGVsbG8='' \<noteq> StringInput []" by simp
  have form: "eraseWatermark_formData (example_env (Resolved JNull)) nul_brush_options =
     Inl (JsError ''TypeError''
       ''The argument path must be a string, Uint8Array, or URL without null bytes.'')"
    by (simp add: eraseWatermark_formData_def nul_brush_appended)
  show ?thesis
    using image_source_precedes_session_id [OF h1 h2 h3, of "example_env (Resolved JNull)" "''key''"]
      image_source_precedes_session_id [OF n1 h2 n3, of "example_env (Resolved JNull)" "''key''"]
      form
    by (auto simp: brush nul_brush_appended eraseWatermark_built [OF masked_options_form]
        posts_try_post)
qed

end
